theory Spec2Isabelle
  imports Complex_Main "HOL-Library.Multiset"
begin

section \<open>Python values used by the stitcher\<close>

text \<open>
  The stitcher (\<^verbatim>\<open>src/lambdas/stitcher/handler.py\<close>) is Python. Its floats are modelled
  as \<^typ>\<open>real\<close> (finite values, exact arithmetic: no NaN, no infinities, no binary
  rounding), its unbounded integers as \<^typ>\<open>int\<close>, and its strings as \<^typ>\<open>string\<close>,
  read as sequences of code points below 256. Exceptions are values of \<open>error\<close>; a
  function that can raise returns \<open>error + 'a\<close>.
\<close>

datatype error =
    KeyError string
  | TypeError
  | ValueError
  | AttributeError
  | OverflowError
  | JSONDecodeError
  | UnicodeDecodeError
  | ClientError int string

definition bind_res :: "error + 'a \<Rightarrow> ('a \<Rightarrow> error + 'b) \<Rightarrow> error + 'b" where
  "bind_res m f = (case m of Inl e \<Rightarrow> Inl e | Inr x \<Rightarrow> f x)"

text \<open>
  A decoded JSON document, as \<^verbatim>\<open>json.loads\<close> returns it. An object is a dict: the list
  of its items in insertion order, each key once.
\<close>

datatype json =
    JNull
  | JBool bool
  | JInt int
  | JFloat real
  | JStr string
  | JArr "json list"
  | JObj "(string \<times> json) list"

subsection \<open>Numbers\<close>

text \<open>\<^verbatim>\<open>round(x)\<close>: to the nearest integer, ties to the even one.\<close>

definition py_round :: "real \<Rightarrow> int" where
  "py_round x =
     (let f = \<lfloor>x\<rfloor>; d = x - of_int f
      in if d < 1 / 2 then f
         else if 1 / 2 < d then f + 1
         else if even f then f else f + 1)"

text \<open>\<^verbatim>\<open>round(x, 3)\<close>.\<close>

definition round3 :: "real \<Rightarrow> real" where
  "round3 x = of_int (py_round (x * 1000)) / 1000"

definition EPS :: real where
  "EPS = 1 / 1000000"

subsection \<open>Strings and formatting\<close>

fun dec_digits :: "nat \<Rightarrow> string" where
  "dec_digits n =
     (if n < 10 then [''0123456789'' ! n]
      else dec_digits (n div 10) @ [''0123456789'' ! (n mod 10)])"

declare dec_digits.simps [simp del]

text \<open>\<^verbatim>\<open>str(n)\<close> and \<^verbatim>\<open>f"{n}"\<close> for an integer.\<close>

definition py_str_int :: "int \<Rightarrow> string" where
  "py_str_int n = (if n < 0 then ''-'' else []) @ dec_digits (nat \<bar>n\<bar>)"

text \<open>\<^verbatim>\<open>f"{n:0wd}"\<close>: the sign first, then zeros up to the width \<open>w\<close>.\<close>

definition fmt_d :: "nat \<Rightarrow> int \<Rightarrow> string" where
  "fmt_d w n =
     (let ds = dec_digits (nat \<bar>n\<bar>);
          sg = (if n < 0 then ''-'' else [])
      in sg @ replicate (w - length sg - length ds) CHR ''0'' @ ds)"

text \<open>\<^verbatim>\<open>sep.join(parts)\<close>.\<close>

fun py_join :: "string \<Rightarrow> string list \<Rightarrow> string" where
  "py_join sep [] = []"
| "py_join sep [x] = x"
| "py_join sep (x # y # r) = x @ sep @ py_join sep (y # r)"

text \<open>The characters \<^verbatim>\<open>str.strip()\<close> removes: those with \<^verbatim>\<open>str.isspace()\<close>.\<close>

definition is_space :: "char \<Rightarrow> bool" where
  "is_space c \<longleftrightarrow> c \<in> set [CHR 0x09, CHR 0x0A, CHR 0x0B, CHR 0x0C, CHR 0x0D,
     CHR 0x1C, CHR 0x1D, CHR 0x1E, CHR 0x1F, CHR 0x20, CHR 0x85, CHR 0xA0]"

definition py_strip :: "string \<Rightarrow> string" where
  "py_strip s = rev (dropWhile is_space (rev (dropWhile is_space s)))"

section \<open>Segments and the output formatters\<close>

text \<open>A global segment: the dict \<^verbatim>\<open>{"id", "start", "end", "text"}\<close>.\<close>

record segment =
  seg_id :: nat
  seg_start :: real
  seg_end :: real
  seg_text :: string

definition sec_to_hhmmss_msec_vtt :: "real \<Rightarrow> string" where
  "sec_to_hhmmss_msec_vtt s =
     (let ms = py_round (s * 1000);
          hours = ms div 3600000;
          ms = ms - hours * 3600000;
          minutes = ms div 60000;
          ms = ms - minutes * 60000;
          seconds = ms div 1000;
          ms = ms - seconds * 1000
      in fmt_d 2 hours @ '':'' @ fmt_d 2 minutes @ '':'' @ fmt_d 2 seconds @ ''.'' @ fmt_d 3 ms)"

definition sec_to_hhmmss_msec_srt :: "real \<Rightarrow> string" where
  "sec_to_hhmmss_msec_srt s =
     (let ms = py_round (s * 1000);
          hours = ms div 3600000;
          ms = ms - hours * 3600000;
          minutes = ms div 60000;
          ms = ms - minutes * 60000;
          seconds = ms div 1000;
          ms = ms - seconds * 1000
      in fmt_d 2 hours @ '':'' @ fmt_d 2 minutes @ '':'' @ fmt_d 2 seconds @ '','' @ fmt_d 3 ms)"

record transcript =
  job_id :: string
  language :: "string option"
  duration_sec :: real
  segments :: "segment list"

definition to_transcript_json :: "string \<Rightarrow> string option \<Rightarrow> segment list \<Rightarrow> transcript" where
  "to_transcript_json job lang segs =
     \<lparr>job_id = job, language = lang,
      duration_sec = (if segs \<noteq> [] then seg_end (last segs) else 0),
      segments = segs\<rparr>"

definition to_txt :: "segment list \<Rightarrow> string" where
  "to_txt segs = py_join ''\<newline>'' (map seg_text segs) @ (if segs \<noteq> [] then ''\<newline>'' else [])"

definition to_vtt :: "segment list \<Rightarrow> string" where
  "to_vtt segs =
     py_join ''\<newline>''
       ([''WEBVTT'', []] @
        concat (map (\<lambda>s. [sec_to_hhmmss_msec_vtt (seg_start s) @ '' --> '' @
                             sec_to_hhmmss_msec_vtt (seg_end s),
                           seg_text s, []]) segs))"

definition to_srt :: "segment list \<Rightarrow> string" where
  "to_srt segs =
     py_join ''\<newline>''
       (concat (map (\<lambda>(i, s). [py_str_int (int i),
                                sec_to_hhmmss_msec_srt (seg_start s) @ '' --> '' @
                                  sec_to_hhmmss_msec_srt (seg_end s),
                                seg_text s, []])
                    (enumerate 1 segs)))"

section \<open>The environment: object storage and library functions\<close>

text \<open>
  What the stitcher calls outside its own code is a parameter of the model:
  \<^item> \<open>head_object bucket key\<close>: the outcome of \<^verbatim>\<open>S3.head_object\<close>, either success or a
    \<^verbatim>\<open>ClientError\<close> with its HTTP status code and its error code;
  \<^item> \<open>list_common_prefixes bucket prefix\<close>: the \<^verbatim>\<open>"Prefix"\<close> entries (absent ones
    as \<open>None\<close>) of the \<^verbatim>\<open>CommonPrefixes\<close> that \<^verbatim>\<open>S3.list_objects_v2\<close> returns for
    the delimiter \<^verbatim>\<open>"/"\<close>;
  \<^item> \<open>get_object_text bucket key\<close>: the object's body, read and decoded as UTF-8;
  \<^item> \<open>json_loads\<close>: \<^verbatim>\<open>json.loads\<close>;
  \<^item> \<open>str_to_int\<close>, \<open>str_to_float\<close>: \<^verbatim>\<open>int(s)\<close> and \<^verbatim>\<open>float(s)\<close> on a string;
  \<^item> \<open>similar a b\<close>: \<^verbatim>\<open>difflib.SequenceMatcher(None, a, b).ratio()\<close>.
\<close>

datatype head_response = HeadOk | HeadClientError int string

record env =
  head_object :: "string \<Rightarrow> string \<Rightarrow> head_response"
  list_common_prefixes :: "string \<Rightarrow> string \<Rightarrow> error + string option list"
  get_object_text :: "string \<Rightarrow> string \<Rightarrow> error + string"
  json_loads :: "string \<Rightarrow> error + json"
  str_to_int :: "string \<Rightarrow> error + int"
  str_to_float :: "string \<Rightarrow> error + real"
  similar :: "string \<Rightarrow> string \<Rightarrow> real"

text \<open>The tunables read from the process environment at import time.\<close>

record config =
  OVERLAP_SEC :: real
  MIN_SEGMENT_SEC :: real

subsection \<open>Operations of Python on decoded JSON\<close>

text \<open>\<^verbatim>\<open>obj[key]\<close> with a string key: only a dict has it.\<close>

fun py_getitem :: "json \<Rightarrow> string \<Rightarrow> error + json" where
  "py_getitem (JObj kvs) k = (case map_of kvs k of None \<Rightarrow> Inl (KeyError k) | Some v \<Rightarrow> Inr v)"
| "py_getitem _ k = Inl TypeError"

text \<open>\<^verbatim>\<open>obj.get(key, default)\<close>: only a dict has the method.\<close>

fun py_dict_get :: "json \<Rightarrow> string \<Rightarrow> json \<Rightarrow> error + json" where
  "py_dict_get (JObj kvs) k d = (case map_of kvs k of None \<Rightarrow> Inr d | Some v \<Rightarrow> Inr v)"
| "py_dict_get _ k d = Inl AttributeError"

text \<open>\<^verbatim>\<open>int(v)\<close>: a float is truncated towards zero.\<close>

fun py_int :: "env \<Rightarrow> json \<Rightarrow> error + int" where
  "py_int E (JInt i) = Inr i"
| "py_int E (JBool b) = Inr (if b then 1 else 0)"
| "py_int E (JFloat r) = Inr (if 0 \<le> r then \<lfloor>r\<rfloor> else \<lceil>r\<rceil>)"
| "py_int E (JStr s) = str_to_int E s"
| "py_int E _ = Inl TypeError"

text \<open>\<^verbatim>\<open>float(v)\<close>.\<close>

fun py_float :: "env \<Rightarrow> json \<Rightarrow> error + real" where
  "py_float E (JInt i) = Inr (of_int i)"
| "py_float E (JBool b) = Inr (if b then 1 else 0)"
| "py_float E (JFloat r) = Inr r"
| "py_float E (JStr s) = str_to_float E s"
| "py_float E _ = Inl TypeError"

text \<open>Truth value of a decoded JSON value, as \<^verbatim>\<open>or\<close> tests it.\<close>

fun py_truthy :: "json \<Rightarrow> bool" where
  "py_truthy JNull = False"
| "py_truthy (JBool b) = b"
| "py_truthy (JInt i) = (i \<noteq> 0)"
| "py_truthy (JFloat r) = (r \<noteq> 0)"
| "py_truthy (JStr s) = (s \<noteq> [])"
| "py_truthy (JArr xs) = (xs \<noteq> [])"
| "py_truthy (JObj kvs) = (kvs \<noteq> [])"

text \<open>\<^verbatim>\<open>v.strip()\<close>: only a string has the method.\<close>

fun py_strip_value :: "json \<Rightarrow> error + string" where
  "py_strip_value (JStr s) = Inr (py_strip s)"
| "py_strip_value _ = Inl AttributeError"

text \<open>The elements a \<^verbatim>\<open>for\<close> loop visits: a dict gives its keys, a string its characters.\<close>

fun py_iter :: "json \<Rightarrow> error + json list" where
  "py_iter (JArr xs) = Inr xs"
| "py_iter (JObj kvs) = Inr (map (\<lambda>kv. JStr (fst kv)) kvs)"
| "py_iter (JStr s) = Inr (map (\<lambda>c. JStr [c]) s)"
| "py_iter _ = Inl TypeError"

text \<open>\<^verbatim>\<open>str.splitlines()\<close>: the line boundaries among the code points below 256.\<close>

definition is_linebreak :: "char \<Rightarrow> bool" where
  "is_linebreak c \<longleftrightarrow> c \<in> set [CHR 0x0A, CHR 0x0B, CHR 0x0C, CHR 0x0D,
     CHR 0x1C, CHR 0x1D, CHR 0x1E, CHR 0x85]"

fun splitlines_from :: "string \<Rightarrow> string \<Rightarrow> string list" where
  "splitlines_from cur [] = (if cur = [] then [] else [cur])"
| "splitlines_from cur [c] = (if is_linebreak c then [cur] else [cur @ [c]])"
| "splitlines_from cur (c # d # cs) =
     (if c = CHR 0x0D \<and> d = CHR 0x0A then cur # splitlines_from [] cs
      else if is_linebreak c then cur # splitlines_from [] (d # cs)
      else splitlines_from (cur @ [c]) (d # cs))"

definition splitlines :: "string \<Rightarrow> string list" where
  "splitlines text = splitlines_from [] text"

section \<open>Manifest parsing\<close>

text \<open>A normalized manifest entry: the dict \<^verbatim>\<open>{"index", "start_sec", "end_sec"}\<close>.\<close>

record entry =
  index :: int
  start_sec :: real
  end_sec :: real

definition parse_entry :: "env \<Rightarrow> json \<Rightarrow> error + entry" where
  "parse_entry E obj =
     bind_res (py_getitem obj ''index'') (\<lambda>v.
     bind_res (py_int E v) (\<lambda>i.
     bind_res (py_getitem obj ''start_sec'') (\<lambda>v.
     bind_res (py_float E v) (\<lambda>s.
     bind_res (py_getitem obj ''end_sec'') (\<lambda>v.
     bind_res (py_float E v) (\<lambda>e.
     Inr \<lparr>index = i, start_sec = s, end_sec = e\<rparr>))))))"

fun parse_lines :: "env \<Rightarrow> string list \<Rightarrow> error + entry list" where
  "parse_lines E [] = Inr []"
| "parse_lines E (l # ls) =
     (let line = py_strip l
      in if line = [] then parse_lines E ls
         else (case json_loads E line of
                 Inl err \<Rightarrow> Inl err
               | Inr obj \<Rightarrow>
                   (case parse_entry E obj of
                      Inl err \<Rightarrow> Inl err
                    | Inr en \<Rightarrow>
                        (case parse_lines E ls of
                           Inl err \<Rightarrow> Inl err
                         | Inr es \<Rightarrow> Inr (en # es)))))"

text \<open>\<^verbatim>\<open>entries.sort(key=...)\<close> is a stable sort, as \<^const>\<open>sort_key\<close> is.\<close>

definition parse_manifest_jsonl :: "env \<Rightarrow> string \<Rightarrow> error + entry list" where
  "parse_manifest_jsonl E text =
     (case parse_lines E (splitlines text) of
        Inl err \<Rightarrow> Inl err
      | Inr entries \<Rightarrow> Inr (sort_key index entries))"

section \<open>Result discovery and loading\<close>

definition s3_key_exists :: "env \<Rightarrow> string \<Rightarrow> string \<Rightarrow> error + bool" where
  "s3_key_exists E bucket key =
     (case head_object E bucket key of
        HeadOk \<Rightarrow> Inr True
      | HeadClientError status code \<Rightarrow>
          if status = 404 \<or> code \<in> set [''404'', ''NotFound'', ''NoSuchKey'']
          then Inr False else Inl (ClientError status code))"

fun first_existing :: "env \<Rightarrow> string \<Rightarrow> string list \<Rightarrow> error + string option" where
  "first_existing E bucket [] = Inr None"
| "first_existing E bucket (k # ks) =
     (case s3_key_exists E bucket k of
        Inl err \<Rightarrow> Inl err
      | Inr found \<Rightarrow> if found then Inr (Some k) else first_existing E bucket ks)"

text \<open>\<^verbatim>\<open>pfx.rstrip("/").split("/")[-1]\<close>.\<close>

definition leaf_of :: "string \<Rightarrow> string" where
  "leaf_of pfx =
     rev (takeWhile (\<lambda>c. c \<noteq> CHR ''/'') (dropWhile (\<lambda>c. c = CHR ''/'') (rev pfx)))"

fun scan_prefixes :: "env \<Rightarrow> string \<Rightarrow> int \<Rightarrow> string option list \<Rightarrow> error + string option" where
  "scan_prefixes E bucket idx [] = Inr None"
| "scan_prefixes E bucket idx (cp # cps) =
     (let pfx = (case cp of None \<Rightarrow> [] | Some p \<Rightarrow> p);
          leaf = leaf_of pfx
      in if leaf = fmt_d 5 idx \<or> leaf = py_str_int idx
         then (let k = pfx @ ''out.json''
               in case s3_key_exists E bucket k of
                    Inl err \<Rightarrow> Inl err
                  | Inr found \<Rightarrow> if found then Inr (Some k) else scan_prefixes E bucket idx cps)
         else scan_prefixes E bucket idx cps)"

definition guess_chunk_key :: "env \<Rightarrow> string \<Rightarrow> string \<Rightarrow> int \<Rightarrow> error + string option" where
  "guess_chunk_key E results_bucket job idx =
     (let exact = [''chunks/'' @ job @ ''/'' @ fmt_d 5 idx @ ''/out.json'',
                   ''chunks/'' @ job @ ''/'' @ py_str_int idx @ ''/out.json'']
      in case first_existing E results_bucket exact of
           Inl err \<Rightarrow> Inl err
         | Inr (Some k) \<Rightarrow> Inr (Some k)
         | Inr None \<Rightarrow>
             (let prefix = ''chunks/'' @ job @ ''/''
              in case list_common_prefixes E results_bucket prefix of
                   Inl err \<Rightarrow> Inl err
                 | Inr cps \<Rightarrow> scan_prefixes E results_bucket idx cps))"

definition read_s3_json :: "env \<Rightarrow> string \<Rightarrow> string \<Rightarrow> error + json" where
  "read_s3_json E bucket key = bind_res (get_object_text E bucket key) (json_loads E)"

text \<open>A normalized chunk-relative segment: the dict \<^verbatim>\<open>{"start", "end", "text"}\<close>.\<close>

record raw_segment =
  r_start :: real
  r_end :: real
  r_text :: string

text \<open>
  One round of the normalizing loop: \<open>Inr None\<close> is a \<^verbatim>\<open>continue\<close>, \<open>Inr (Some r)\<close>
  the element appended to \<^verbatim>\<open>norm\<close>.
\<close>

definition norm_segment :: "env \<Rightarrow> json \<Rightarrow> error + raw_segment option" where
  "norm_segment E s =
     bind_res (py_dict_get s ''start'' (JFloat 0)) (\<lambda>v.
     bind_res (py_float E v) (\<lambda>start.
     bind_res (py_dict_get s ''end'' (JFloat 0)) (\<lambda>v.
     bind_res (py_float E v) (\<lambda>end.
     bind_res (py_dict_get s ''text'' JNull) (\<lambda>t.
     bind_res (py_strip_value (if py_truthy t then t else JStr [])) (\<lambda>text.
     if text = [] then Inr None
     else if end - start \<le> EPS then Inr None
     else Inr (Some \<lparr>r_start = start, r_end = end, r_text = text\<rparr>)))))))"

fun norm_loop :: "env \<Rightarrow> json list \<Rightarrow> error + raw_segment list" where
  "norm_loop E [] = Inr []"
| "norm_loop E (s # ss) =
     (case norm_segment E s of
        Inl err \<Rightarrow> Inl err
      | Inr None \<Rightarrow> norm_loop E ss
      | Inr (Some r) \<Rightarrow>
          (case norm_loop E ss of
             Inl err \<Rightarrow> Inl err
           | Inr rs \<Rightarrow> Inr (r # rs)))"

definition load_chunk_segments :: "env \<Rightarrow> string \<Rightarrow> string \<Rightarrow> error + raw_segment list" where
  "load_chunk_segments E results_bucket chunk_key =
     bind_res (read_s3_json E results_bucket chunk_key) (\<lambda>data.
     bind_res (py_dict_get data ''segments'' (JArr [])) (\<lambda>segs.
     bind_res (py_iter segs) (norm_loop E)))"

section \<open>Segment merging\<close>

record merge_meta =
  chunks :: nat
  dropped_short :: nat
  dropped_overlap :: nat

text \<open>The variables the merge loop updates.\<close>

record merge_state =
  merged :: "segment list"
  next_id :: nat
  last_end :: real
  meta :: merge_meta

definition DEDUP_SIM_THRESH :: real where
  "DEDUP_SIM_THRESH = 85 / 100"

definition DEDUP_BACK_WINDOW :: "config \<Rightarrow> real" where
  "DEDUP_BACK_WINDOW C = max (OVERLAP_SEC C) 2"

text \<open>
  The backward scan \<^verbatim>\<open>while k >= 0 and merged[k]["start"] >= gs - DEDUP_BACK_WINDOW\<close>,
  run on the accepted segments from the last one to the first: the argument is
  \<open>rev merged\<close>, and \<open>lo\<close> is \<open>gs - DEDUP_BACK_WINDOW\<close>.
\<close>

fun dup_scan :: "env \<Rightarrow> real \<Rightarrow> string \<Rightarrow> segment list \<Rightarrow> bool" where
  "dup_scan E lo txt [] = False"
| "dup_scan E lo txt (m # ms) =
     (if lo \<le> seg_start m
      then (if DEDUP_SIM_THRESH \<le> similar E (seg_text m) txt then True
            else dup_scan E lo txt ms)
      else False)"

definition bump_overlap :: "merge_state \<Rightarrow> merge_state" where
  "bump_overlap st = st\<lparr>meta := (meta st)\<lparr>dropped_overlap := dropped_overlap (meta st) + 1\<rparr>\<rparr>"

definition bump_short :: "merge_state \<Rightarrow> merge_state" where
  "bump_short st = st\<lparr>meta := (meta st)\<lparr>dropped_short := dropped_short (meta st) + 1\<rparr>\<rparr>"

definition bump_chunks :: "merge_state \<Rightarrow> merge_state" where
  "bump_chunks st = st\<lparr>meta := (meta st)\<lparr>chunks := chunks (meta st) + 1\<rparr>\<rparr>"

text \<open>One round of the inner loop \<^verbatim>\<open>for s in segs\<close>, in the window \<open>c_start..c_end\<close>.\<close>

definition merge_step :: "config \<Rightarrow> env \<Rightarrow> real \<Rightarrow> real \<Rightarrow> merge_state \<Rightarrow> raw_segment \<Rightarrow> merge_state" where
  "merge_step C E c_start c_end st s =
     (let gs = r_start s + c_start;
          ge = r_end s + c_start
      in if ge < c_start + EPS \<or> gs > c_end - EPS then st
         else
           (let gs = max gs c_start;
                ge = min ge c_end
            in if dup_scan E (gs - DEDUP_BACK_WINDOW C) (r_text s) (rev (merged st))
               then bump_overlap st
               else if ge \<le> last_end st + EPS then bump_overlap st
               else
                 (let gs = (if gs < last_end st then last_end st else gs)
                  in if ge - gs < MIN_SEGMENT_SEC C then bump_short st
                     else st\<lparr>merged := merged st @
                                 [\<lparr>seg_id = next_id st, seg_start = round3 gs,
                                   seg_end = round3 ge, seg_text = r_text s\<rparr>],
                              next_id := next_id st + 1,
                              last_end := ge\<rparr>)))"

text \<open>The outer loop \<^verbatim>\<open>for entry in manifest\<close>.\<close>

fun merge_loop :: "config \<Rightarrow> env \<Rightarrow> string \<Rightarrow> string \<Rightarrow> merge_state \<Rightarrow> entry list \<Rightarrow> error + merge_state" where
  "merge_loop C E results_bucket job st [] = Inr st"
| "merge_loop C E results_bucket job st (en # ens) =
     (case guess_chunk_key E results_bucket job (index en) of
        Inl err \<Rightarrow> Inl err
      | Inr chunk_key \<Rightarrow>
          (case chunk_key of
             None \<Rightarrow> merge_loop C E results_bucket job st ens
           | Some k \<Rightarrow>
               if k = [] then merge_loop C E results_bucket job st ens
               else
                 (case load_chunk_segments E results_bucket k of
                    Inl err \<Rightarrow> Inl err
                  | Inr segs \<Rightarrow>
                      merge_loop C E results_bucket job
                        (bump_chunks (foldl (merge_step C E (start_sec en) (end_sec en)) st segs))
                        ens)))"

text \<open>
  The second loop, \<^verbatim>\<open>for seg in merged\<close>, with its variables \<^verbatim>\<open>fixed\<close> and
  \<^verbatim>\<open>last\<close>.
\<close>

fun repair :: "config \<Rightarrow> segment list \<Rightarrow> real \<Rightarrow> segment list \<Rightarrow> segment list" where
  "repair C fixed lst [] = fixed"
| "repair C fixed lst (seg # rest) =
     (let s = seg_start seg;
          e = seg_end seg;
          s = (if s < lst then lst else s);
          s = (if s - lst > 0 then max lst s else s)
      in if e - s < MIN_SEGMENT_SEC C then repair C fixed lst rest
         else repair C
                (fixed @ [\<lparr>seg_id = length fixed, seg_start = round3 s,
                           seg_end = round3 e, seg_text = seg_text seg\<rparr>])
                e rest)"

definition initial_state :: merge_state where
  "initial_state =
     \<lparr>merged = [], next_id = 0, last_end = 0,
      meta = \<lparr>chunks = 0, dropped_short = 0, dropped_overlap = 0\<rparr>\<rparr>"

definition merge_segments :: "config \<Rightarrow> env \<Rightarrow> entry list \<Rightarrow> string \<Rightarrow> string \<Rightarrow> error + segment list \<times> merge_meta" where
  "merge_segments C E manifest results_bucket job =
     (case merge_loop C E results_bucket job initial_state manifest of
        Inl err \<Rightarrow> Inl err
      | Inr st \<Rightarrow> Inr (repair C [] 0 (merged st), meta st))"

section \<open>Notions used to state the properties\<close>

text \<open>A time that \<^verbatim>\<open>round(x, 3)\<close> leaves as it is.\<close>

definition on_grid :: "real \<Rightarrow> bool" where
  "on_grid x \<longleftrightarrow> round3 x = x"

definition seg_on_grid :: "segment \<Rightarrow> bool" where
  "seg_on_grid g \<longleftrightarrow> on_grid (seg_start g) \<and> on_grid (seg_end g)"

text \<open>
  The posted invariant of the final sequence: from each segment to the next one starts
  do not decrease, the next start is not before the previous end and ends do not
  retreat; every duration is at least \<open>MIN_SEGMENT_SEC\<close>; the ids are \<open>0, 1, 2, ...\<close>.
\<close>

definition posted_invariant :: "config \<Rightarrow> segment list \<Rightarrow> bool" where
  "posted_invariant C segs \<longleftrightarrow>
     successively (\<lambda>a b. seg_start a \<le> seg_start b \<and> seg_end a \<le> seg_start b
                          \<and> seg_end a \<le> seg_end b) segs
     \<and> list_all (\<lambda>g. MIN_SEGMENT_SEC C \<le> seg_end g - seg_start g) segs
     \<and> map seg_id segs = [0..<length segs]"

text \<open>
  Reading a raw segment object as the loader does: a number under \<^verbatim>\<open>"start"\<close> and
  \<^verbatim>\<open>"end"\<close> (0.0 when the key is absent), a string under \<^verbatim>\<open>"text"\<close> (empty when
  the key is absent or null). \<open>raw_of j r\<close>: the decoded JSON value \<open>j\<close> is such an
  object, with the start, end and text of \<open>r\<close>.
\<close>

definition field_num :: "(string \<times> json) list \<Rightarrow> string \<Rightarrow> real option" where
  "field_num kvs k =
     (case map_of kvs k of
        None \<Rightarrow> Some 0
      | Some (JInt i) \<Rightarrow> Some (of_int i)
      | Some (JFloat x) \<Rightarrow> Some x
      | Some _ \<Rightarrow> None)"

definition field_text :: "(string \<times> json) list \<Rightarrow> string option" where
  "field_text kvs =
     (case map_of kvs ''text'' of
        None \<Rightarrow> Some []
      | Some JNull \<Rightarrow> Some []
      | Some (JStr t) \<Rightarrow> Some t
      | Some _ \<Rightarrow> None)"

definition raw_of :: "json \<Rightarrow> raw_segment \<Rightarrow> bool" where
  "raw_of j r \<longleftrightarrow>
     (case j of
        JObj kvs \<Rightarrow> field_num kvs ''start'' = Some (r_start r)
                  \<and> field_num kvs ''end'' = Some (r_end r)
                  \<and> field_text kvs = Some (r_text r)
      | _ \<Rightarrow> False)"

text \<open>The raw segments the loader keeps, and what it passes on of one.\<close>

definition kept :: "raw_segment \<Rightarrow> bool" where
  "kept r \<longleftrightarrow> py_strip (r_text r) \<noteq> [] \<and> \<not> r_end r - r_start r \<le> EPS"

definition trimmed :: "raw_segment \<Rightarrow> raw_segment" where
  "trimmed r = r\<lparr>r_text := py_strip (r_text r)\<rparr>"

text \<open>Whether the merge loop finds a chunk result for a manifest entry.\<close>

definition chunk_found :: "env \<Rightarrow> string \<Rightarrow> string \<Rightarrow> entry \<Rightarrow> bool" where
  "chunk_found E results_bucket job en \<longleftrightarrow>
     (case guess_chunk_key E results_bucket job (index en) of
        Inr (Some k) \<Rightarrow> k \<noteq> []
      | _ \<Rightarrow> False)"

text \<open>
  A manifest entry whose lookup does not raise and whose chunk result, when there is
  one, loads without an error.
\<close>

definition chunk_loadable :: "env \<Rightarrow> string \<Rightarrow> string \<Rightarrow> entry \<Rightarrow> bool" where
  "chunk_loadable E results_bucket job en \<longleftrightarrow>
     (case guess_chunk_key E results_bucket job (index en) of
        Inl err \<Rightarrow> False
      | Inr None \<Rightarrow> True
      | Inr (Some k) \<Rightarrow>
          k = [] \<or> (case load_chunk_segments E results_bucket k of Inl err \<Rightarrow> False | Inr segs \<Rightarrow> True))"

text \<open>A manifest entry whose chunk result is absent, or loads to no segment at all.\<close>

definition no_segments :: "env \<Rightarrow> string \<Rightarrow> string \<Rightarrow> entry \<Rightarrow> bool" where
  "no_segments E results_bucket job en \<longleftrightarrow>
     (case guess_chunk_key E results_bucket job (index en) of
        Inl err \<Rightarrow> False
      | Inr None \<Rightarrow> True
      | Inr (Some k) \<Rightarrow> k = [] \<or> load_chunk_segments E results_bucket k = Inr [])"

text \<open>
  \<open>chunk_text E bucket k txt\<close>: \<open>txt\<close> is the trimmed text of a segment of the chunk
  result stored under the key \<open>k\<close>. \<open>input_text\<close>: of a chunk result that the lookup
  finds for some entry of the manifest.
\<close>

definition chunk_text :: "env \<Rightarrow> string \<Rightarrow> string \<Rightarrow> string \<Rightarrow> bool" where
  "chunk_text E results_bucket k txt \<longleftrightarrow>
     (\<exists>data segs js j t.
        read_s3_json E results_bucket k = Inr data
        \<and> py_dict_get data ''segments'' (JArr []) = Inr segs
        \<and> py_iter segs = Inr js \<and> j \<in> set js
        \<and> py_dict_get j ''text'' JNull = Inr (JStr t) \<and> txt = py_strip t)"

definition input_text :: "env \<Rightarrow> string \<Rightarrow> string \<Rightarrow> entry list \<Rightarrow> string \<Rightarrow> bool" where
  "input_text E results_bucket job manifest txt \<longleftrightarrow>
     (\<exists>en \<in> set manifest. \<exists>k.
        guess_chunk_key E results_bucket job (index en) = Inr (Some k)
        \<and> chunk_text E results_bucket k txt)"

subsection \<open>Sample environments\<close>

text \<open>
  An object store that holds the objects \<open>objs\<close> (key and body) in every bucket and
  answers 404 for any other key, a JSON decoder given by the table \<open>docs\<close>, and the
  text similarity \<open>sim\<close>.
\<close>

definition store_env :: "(string \<times> string) list \<Rightarrow> (string \<times> json) list \<Rightarrow> (string \<Rightarrow> string \<Rightarrow> real) \<Rightarrow> env" where
  "store_env objs docs sim =
     \<lparr>head_object = (\<lambda>bucket key.
        case map_of objs key of Some _ \<Rightarrow> HeadOk | None \<Rightarrow> HeadClientError 404 ''NotFound''),
      list_common_prefixes = (\<lambda>bucket prefix.
        Inr (remdups (concat (map (\<lambda>kv.
          let key = fst kv; rest = drop (length prefix) key
          in if take (length prefix) key = prefix \<and> CHR ''/'' \<in> set rest
             then [Some (prefix @ takeWhile (\<lambda>c. c \<noteq> CHR ''/'') rest @ ''/'')] else []) objs)))),
      get_object_text = (\<lambda>bucket key.
        case map_of objs key of Some body \<Rightarrow> Inr body | None \<Rightarrow> Inl (ClientError 404 ''NoSuchKey'')),
      json_loads = (\<lambda>s. case map_of docs s of Some d \<Rightarrow> Inr d | None \<Rightarrow> Inl JSONDecodeError),
      str_to_int = (\<lambda>s. Inl ValueError),
      str_to_float = (\<lambda>s. Inl ValueError),
      similar = sim\<rparr>"

definition same_text :: "string \<Rightarrow> string \<Rightarrow> real" where
  "same_text a b = (if a = b then 1 else 0)"

text \<open>The tunables at their defaults.\<close>

definition default_config :: config where
  "default_config = \<lparr>OVERLAP_SEC = 1, MIN_SEGMENT_SEC = 0.06\<rparr>"

text \<open>Two windows that overlap by one second, each chunk holding the same sentence.\<close>

definition boundary_chunk0 :: string where
  \<open>boundary_chunk0 = ''{"segments": [{"start": 598.5, "end": 599.8, "text": "hello world"}]}''\<close>

definition boundary_chunk1 :: string where
  \<open>boundary_chunk1 = ''{"segments": [{"start": 0.1, "end": 1.3, "text": "hello world"}]}''\<close>

definition boundary_env :: "(string \<Rightarrow> string \<Rightarrow> real) \<Rightarrow> env" where
  "boundary_env sim =
     store_env
       [(''chunks/job/00000/out.json'', boundary_chunk0),
        (''chunks/job/00001/out.json'', boundary_chunk1)]
       [(boundary_chunk0,
           JObj [(''segments'', JArr [JObj [(''start'', JFloat 598.5), (''end'', JFloat 599.8),
                                           (''text'', JStr ''hello world'')]])]),
        (boundary_chunk1,
           JObj [(''segments'', JArr [JObj [(''start'', JFloat 0.1), (''end'', JFloat 1.3),
                                           (''text'', JStr ''hello world'')]])])]
       sim"

definition boundary_manifest :: "entry list" where
  "boundary_manifest =
     [\<lparr>index = 0, start_sec = 0, end_sec = 600\<rparr>, \<lparr>index = 1, start_sec = 599, end_sec = 1200\<rparr>]"

text \<open>The merge state after chunk 0 of these, and the first segment of chunk 1.\<close>

definition boundary_state :: merge_state where
  "boundary_state =
     \<lparr>merged = [\<lparr>seg_id = 0, seg_start = 598.5, seg_end = 599.8, seg_text = ''hello world''\<rparr>],
      next_id = 1, last_end = 599.8,
      meta = \<lparr>chunks = 1, dropped_short = 0, dropped_overlap = 0\<rparr>\<rparr>"

definition boundary_candidate :: raw_segment where
  "boundary_candidate = \<lparr>r_start = 0.1, r_end = 1.3, r_text = ''hello world''\<rparr>"

text \<open>The same two windows; chunk 0 is absent and chunk 1 holds only blank text.\<close>

definition blank_chunk :: string where
  \<open>blank_chunk = ''{"segments": [{"start": 0.0, "end": 1.0, "text": "  "}]}''\<close>

definition blank_env :: env where
  "blank_env =
     store_env
       [(''chunks/job/00001/out.json'', blank_chunk)]
       [(blank_chunk,
           JObj [(''segments'', JArr [JObj [(''start'', JFloat 0), (''end'', JFloat 1),
                                           (''text'', JStr ''  '')]])])]
       same_text"

text \<open>Three windows; the result of chunk 1 is absent from the store.\<close>

definition gap_chunk0 :: string where
  \<open>gap_chunk0 = ''{"segments": [{"start": 0.0, "end": 2.5, "text": " first words "}, {"start": 2.5, "end": 2.5, "text": "no time"}, {"start": 3.0, "end": 4.0, "text": "   "}, {"start": 598.5, "end": 599.8, "text": "hello world"}]}''\<close>

definition gap_chunk2 :: string where
  \<open>gap_chunk2 = ''{"segments": [{"start": 0.5, "end": 3.25, "text": "after the gap"}]}''\<close>

definition gap_segments0 :: "json list" where
  "gap_segments0 =
     [JObj [(''start'', JFloat 0), (''end'', JFloat 2.5), (''text'', JStr '' first words '')],
      JObj [(''start'', JFloat 2.5), (''end'', JFloat 2.5), (''text'', JStr ''no time'')],
      JObj [(''start'', JFloat 3), (''end'', JFloat 4), (''text'', JStr ''   '')],
      JObj [(''start'', JFloat 598.5), (''end'', JFloat 599.8), (''text'', JStr ''hello world'')]]"

definition gap_raw0 :: "raw_segment list" where
  "gap_raw0 =
     [\<lparr>r_start = 0, r_end = 2.5, r_text = '' first words ''\<rparr>,
      \<lparr>r_start = 2.5, r_end = 2.5, r_text = ''no time''\<rparr>,
      \<lparr>r_start = 3, r_end = 4, r_text = ''   ''\<rparr>,
      \<lparr>r_start = 598.5, r_end = 599.8, r_text = ''hello world''\<rparr>]"

definition gap_env :: env where
  "gap_env =
     store_env
       [(''chunks/job/00000/out.json'', gap_chunk0),
        (''chunks/job/00002/out.json'', gap_chunk2)]
       [(gap_chunk0, JObj [(''segments'', JArr gap_segments0)]),
        (gap_chunk2,
           JObj [(''segments'', JArr [JObj [(''start'', JFloat 0.5), (''end'', JFloat 3.25),
                                           (''text'', JStr ''after the gap'')]])])]
       same_text"

definition gap_window0 :: entry where
  "gap_window0 = \<lparr>index = 0, start_sec = 0, end_sec = 600\<rparr>"

definition gap_window1 :: entry where
  "gap_window1 = \<lparr>index = 1, start_sec = 599, end_sec = 1200\<rparr>"

definition gap_window2 :: entry where
  "gap_window2 = \<lparr>index = 2, start_sec = 1199, end_sec = 1800\<rparr>"

definition gap_manifest :: "entry list" where
  "gap_manifest = [gap_window0, gap_window1, gap_window2]"

definition gap_output :: "segment list" where
  "gap_output =
     [\<lparr>seg_id = 0, seg_start = 0, seg_end = 2.5, seg_text = ''first words''\<rparr>,
      \<lparr>seg_id = 1, seg_start = 598.5, seg_end = 599.8, seg_text = ''hello world''\<rparr>,
      \<lparr>seg_id = 2, seg_start = 1199.5, seg_end = 1202.25, seg_text = ''after the gap''\<rparr>]"

text \<open>A manifest of three records, two of them with the index 1, and one blank line.\<close>

definition line_a :: string where
  \<open>line_a = ''{"index": 1, "start_sec": 599.0, "end_sec": 1200.0}''\<close>

definition line_b :: string where
  \<open>line_b = ''{"index": 0, "start_sec": 0.0, "end_sec": 600.0}''\<close>

definition line_c :: string where
  \<open>line_c = ''{"index": 1, "start_sec": 10.0, "end_sec": 20.0}''\<close>

definition line_neg :: string where
  \<open>line_neg = ''{"index": -1, "start_sec": 5.0, "end_sec": 3.0}''\<close>

definition window_json :: "int \<Rightarrow> real \<Rightarrow> real \<Rightarrow> json" where
  "window_json i s e = JObj [(''index'', JInt i), (''start_sec'', JFloat s), (''end_sec'', JFloat e)]"

definition manifest_env :: env where
  "manifest_env =
     store_env []
       [(line_a, window_json 1 599 1200), (line_b, window_json 0 0 600),
        (line_c, window_json 1 10 20), (line_neg, window_json (- 1) 5 3)]
       same_text"

text \<open>The record that each line of this manifest denotes.\<close>

definition manifest_record :: "string \<Rightarrow> entry" where
  "manifest_record l =
     (if py_strip l = line_a then \<lparr>index = 1, start_sec = 599, end_sec = 1200\<rparr>
      else if py_strip l = line_b then \<lparr>index = 0, start_sec = 0, end_sec = 600\<rparr>
      else \<lparr>index = 1, start_sec = 10, end_sec = 20\<rparr>)"

definition manifest_text :: string where
  "manifest_text = line_a @ ''\<newline>\<newline>'' @ line_b @ ''\<newline>  '' @ line_c @ ''\<newline>''"

section \<open>Rounding and trimming\<close>

lemma py_round_of_int: "py_round (of_int n) = n"
  by (simp add: py_round_def)

lemma round3_idem: "round3 (round3 x) = round3 x"
  by (simp add: round3_def py_round_of_int)

lemma round3_0: "round3 0 = 0"
  by (simp add: round3_def py_round_def)

lemma last_dropWhile_nonempty: "dropWhile P xs \<noteq> [] \<Longrightarrow> last (dropWhile P xs) = last xs"
  by (induction xs) (auto split: if_splits)

lemma py_strip_no_lead:
  assumes "py_strip s \<noteq> []"
  shows "\<not> is_space (hd (py_strip s))"
proof -
  let ?t = "dropWhile is_space s"
  let ?u = "dropWhile is_space (rev ?t)"
  from assms have u: "?u \<noteq> []" by (simp add: py_strip_def)
  then have t: "?t \<noteq> []" by (metis dropWhile.simps(1) rev.simps(1))
  have "hd (py_strip s) = last ?u" using u by (simp add: py_strip_def hd_rev)
  also have "\<dots> = last (rev ?t)" using u by (rule last_dropWhile_nonempty)
  also have "\<dots> = hd ?t" using t by (simp add: last_rev)
  finally show ?thesis using hd_dropWhile [OF t] by simp
qed

lemma py_strip_no_trail:
  assumes "py_strip s \<noteq> []"
  shows "\<not> is_space (last (py_strip s))"
proof -
  let ?u = "dropWhile is_space (rev (dropWhile is_space s))"
  from assms have u: "?u \<noteq> []" by (simp add: py_strip_def)
  have "last (py_strip s) = hd ?u" using u by (simp add: py_strip_def last_rev)
  then show ?thesis using hd_dropWhile [OF u] by simp
qed

section \<open>The sample with a gap, evaluated\<close>

lemma gap_merge:
  "merge_segments default_config gap_env gap_manifest ''results'' ''job''
   = Inr (gap_output, \<lparr>chunks = 2, dropped_short = 0, dropped_overlap = 0\<rparr>)"
  by code_simp

section \<open>The posted invariant\<close>

lemma merge_step_grid:
  "list_all seg_on_grid (merged st) \<Longrightarrow> list_all seg_on_grid (merged (merge_step C E cs ce st s))"
  by (simp add: merge_step_def Let_def bump_overlap_def bump_short_def seg_on_grid_def
      on_grid_def round3_idem)

lemma foldl_merge_step_grid:
  "list_all seg_on_grid (merged st) \<Longrightarrow>
   list_all seg_on_grid (merged (foldl (merge_step C E cs ce) st segs))"
  by (induction segs arbitrary: st) (simp_all add: merge_step_grid)

lemma merge_loop_grid:
  "merge_loop C E b job st ens = Inr st' \<Longrightarrow> list_all seg_on_grid (merged st) \<Longrightarrow>
   list_all seg_on_grid (merged st')"
proof (induction ens arbitrary: st)
  case Nil
  then show ?case by simp
next
  case (Cons en ens)
  then show ?case
    by (auto simp: bump_chunks_def foldl_merge_step_grid
        split: sum.splits option.splits if_splits)
qed

lemma posted_invariant_snoc:
  assumes "posted_invariant C fixed"
    and "fixed \<noteq> [] \<Longrightarrow> seg_start (last fixed) \<le> seg_start g \<and> seg_end (last fixed) \<le> seg_start g
           \<and> seg_end (last fixed) \<le> seg_end g"
    and "MIN_SEGMENT_SEC C \<le> seg_end g - seg_start g"
    and "seg_id g = length fixed"
  shows "posted_invariant C (fixed @ [g])"
  using assms by (auto simp: posted_invariant_def successively_append_iff)

lemma repair_invariant:
  assumes "0 \<le> MIN_SEGMENT_SEC C"
  shows "posted_invariant C fixed \<Longrightarrow> (fixed \<noteq> [] \<Longrightarrow> seg_end (last fixed) = lst) \<Longrightarrow>
    on_grid lst \<Longrightarrow> list_all seg_on_grid rest \<Longrightarrow>
    posted_invariant C (repair C fixed lst rest)"
proof (induction rest arbitrary: fixed lst)
  case Nil
  then show ?case by simp
next
  case (Cons seg rest)
  define s where "s = max (seg_start seg) lst"
  define e where "e = seg_end seg"
  define g where "g = \<lparr>seg_id = length fixed, seg_start = round3 s, seg_end = round3 e,
    seg_text = seg_text seg\<rparr>"
  have step: "repair C fixed lst (seg # rest) =
    (if e - s < MIN_SEGMENT_SEC C then repair C fixed lst rest else repair C (fixed @ [g]) e rest)"
    by (simp add: s_def e_def g_def Let_def max_def)
  from Cons.prems(4) have rest: "list_all seg_on_grid rest" and hd: "seg_on_grid seg"
    by simp_all
  from hd Cons.prems(3) have gs: "on_grid s" and ge: "on_grid e"
    by (simp_all add: s_def e_def seg_on_grid_def max_def)
  show ?case
  proof (cases "e - s < MIN_SEGMENT_SEC C")
    case True
    with step Cons show ?thesis by simp
  next
    case False
    have sg: "seg_start g = s" "seg_end g = e" "seg_id g = length fixed"
      using gs ge by (simp_all add: g_def on_grid_def)
    have dur: "MIN_SEGMENT_SEC C \<le> seg_end g - seg_start g" using False sg by simp
    have link: "seg_start (last fixed) \<le> seg_start g \<and> seg_end (last fixed) \<le> seg_start g
           \<and> seg_end (last fixed) \<le> seg_end g" if ne: "fixed \<noteq> []"
    proof -
      from ne Cons.prems(2) have le: "seg_end (last fixed) = lst" by simp
      from ne Cons.prems(1) have "MIN_SEGMENT_SEC C \<le> seg_end (last fixed) - seg_start (last fixed)"
        by (simp add: posted_invariant_def list_all_iff)
      with assms le have "seg_start (last fixed) \<le> lst" by simp
      moreover have "lst \<le> s" by (simp add: s_def)
      moreover have "s \<le> e" using False assms by simp
      ultimately show ?thesis using le sg by simp
    qed
    have inv: "posted_invariant C (fixed @ [g])"
      using posted_invariant_snoc [OF Cons.prems(1) link dur sg(3)] by simp
    have "posted_invariant C (repair C (fixed @ [g]) e rest)"
      by (rule Cons.IH [OF inv _ ge rest]) (simp add: sg)
    with step False show ?thesis by simp
  qed
qed

text \<open>
  Claim C1: whatever the manifest and the chunk results are, when the merge returns, the
  sequence it returns after the repair pass satisfies the posted invariant: starts are
  non-decreasing, every start is at least the previous end, every duration is at least
  \<open>MIN_SEGMENT_SEC\<close>, ends never retreat, and the ids are dense from 0. The tunable
  \<open>MIN_SEGMENT_SEC\<close> is taken non-negative, as its default 0.06 is.
\<close>

theorem C1_posted_invariant:
  assumes "0 \<le> MIN_SEGMENT_SEC C"
    and "merge_segments C E manifest results_bucket job = Inr (fixed, mt)"
  shows "posted_invariant C fixed"
proof -
  from assms(2) obtain st where
    loop: "merge_loop C E results_bucket job initial_state manifest = Inr st"
    and fixed: "fixed = repair C [] 0 (merged st)"
    by (auto simp: merge_segments_def split: sum.splits)
  have "list_all seg_on_grid (merged st)"
    by (rule merge_loop_grid [OF loop]) (simp add: initial_state_def)
  then show ?thesis
    unfolding fixed
    by (intro repair_invariant [OF assms(1)]) (simp_all add: posted_invariant_def on_grid_def round3_0)
qed

theorem C1_posted_invariant_witness:
  "0 \<le> MIN_SEGMENT_SEC default_config
   \<and> merge_segments default_config gap_env gap_manifest ''results'' ''job''
       = Inr (gap_output, \<lparr>chunks = 2, dropped_short = 0, dropped_overlap = 0\<rparr>)
   \<and> posted_invariant default_config gap_output"
proof -
  have pos: "0 \<le> MIN_SEGMENT_SEC default_config" by (simp add: default_config_def)
  show ?thesis
    using pos gap_merge C1_posted_invariant [OF pos gap_merge] by simp
qed

section \<open>Properties of the formatters\<close>

text \<open>
  Claim C2, as the code has it: for the one-segment sequence
  \<^verbatim>\<open>[{id:0, start:0.0, end:1.5, text:"Hi"}]\<close> the WebVTT renderer returns
  \<^verbatim>\<open>"WEBVTT\n\n00:00:00.000 --> 00:00:01.500\nHi\n"\<close> and the SubRip renderer returns
  \<^verbatim>\<open>"1\n00:00:00,000 --> 00:00:01,500\nHi\n"\<close>: each ends with one newline, since the
  empty string appended after the cue text is the last element that \<^verbatim>\<open>"\n".join\<close>
  receives, and \<open>join\<close> puts a separator only between elements.
\<close>

theorem C2_one_segment_rendering:
  "to_vtt [\<lparr>seg_id = 0, seg_start = 0, seg_end = 1.5, seg_text = ''Hi''\<rparr>]
     = ''WEBVTT\<newline>\<newline>00:00:00.000 --> 00:00:01.500\<newline>Hi\<newline>''
   \<and> to_srt [\<lparr>seg_id = 0, seg_start = 0, seg_end = 1.5, seg_text = ''Hi''\<rparr>]
     = ''1\<newline>00:00:00,000 --> 00:00:01,500\<newline>Hi\<newline>''"
  by code_simp

text \<open>
  Claim C2 as the specification words it (two newlines after the cue text) does not hold:
  neither renderer returns the string the specification gives.
\<close>

theorem C2_spec_strings_counterexample:
  "to_vtt [\<lparr>seg_id = 0, seg_start = 0, seg_end = 1.5, seg_text = ''Hi''\<rparr>]
     \<noteq> ''WEBVTT\<newline>\<newline>00:00:00.000 --> 00:00:01.500\<newline>Hi\<newline>\<newline>''
   \<and> to_srt [\<lparr>seg_id = 0, seg_start = 0, seg_end = 1.5, seg_text = ''Hi''\<rparr>]
     \<noteq> ''1\<newline>00:00:00,000 --> 00:00:01,500\<newline>Hi\<newline>\<newline>''"
  by code_simp

section \<open>The overlap resolver\<close>

lemma dup_scan_iff:
  "dup_scan E lo txt ms \<longleftrightarrow>
   (\<exists>m \<in> set (takeWhile (\<lambda>m. lo \<le> seg_start m) ms). DEDUP_SIM_THRESH \<le> similar E (seg_text m) txt)"
  by (induction ms) auto

lemma boundary_guess0:
  "guess_chunk_key (boundary_env sim) ''results'' ''job'' 0 = Inr (Some ''chunks/job/00000/out.json'')"
  by code_simp

lemma boundary_guess1:
  "guess_chunk_key (boundary_env sim) ''results'' ''job'' 1 = Inr (Some ''chunks/job/00001/out.json'')"
  by code_simp

lemma boundary_load0:
  "load_chunk_segments (boundary_env sim) ''results'' ''chunks/job/00000/out.json''
   = Inr [\<lparr>r_start = 598.5, r_end = 599.8, r_text = ''hello world''\<rparr>]"
  by code_simp

lemma boundary_load1:
  "load_chunk_segments (boundary_env sim) ''results'' ''chunks/job/00001/out.json''
   = Inr [\<lparr>r_start = 0.1, r_end = 1.3, r_text = ''hello world''\<rparr>]"
  by code_simp

lemma boundary_similar: "similar (boundary_env sim) = sim"
  by (simp add: boundary_env_def store_env_def)

lemma round3_examples: "round3 (1197 / 2) = 1197 / 2" "round3 (2999 / 5) = 2999 / 5"
  by (simp_all add: round3_def py_round_def)

lemma boundary_merge_any_sim:
  assumes "85 / 100 \<le> sim ''hello world'' ''hello world''"
  shows "merge_segments default_config (boundary_env sim) boundary_manifest ''results'' ''job''
   = Inr ([\<lparr>seg_id = 0, seg_start = 598.5, seg_end = 599.8, seg_text = ''hello world''\<rparr>],
          \<lparr>chunks = 2, dropped_short = 0, dropped_overlap = 1\<rparr>)"
proof -
  have "merge_loop default_config (boundary_env sim) ''results'' ''job'' initial_state boundary_manifest
      = Inr \<lparr>merged = [\<lparr>seg_id = 0, seg_start = 598.5, seg_end = 599.8, seg_text = ''hello world''\<rparr>],
             next_id = 1, last_end = 599.8,
             meta = \<lparr>chunks = 2, dropped_short = 0, dropped_overlap = 1\<rparr>\<rparr>"
    using assms
    by (simp add: boundary_manifest_def boundary_guess0 boundary_guess1 boundary_load0
        boundary_load1 merge_step_def initial_state_def default_config_def EPS_def
        DEDUP_BACK_WINDOW_def DEDUP_SIM_THRESH_def boundary_similar Let_def round3_examples
        bump_chunks_def bump_overlap_def)
  then show ?thesis
    by (simp add: merge_segments_def default_config_def Let_def round3_examples)
qed

text \<open>
  Claim C3: a candidate that survives the clamp to its window \<open>c_start..c_end\<close>, with
  clamped global start \<open>gs = max (start + c_start) c_start\<close>, is rejected and
  \<open>dropped_overlap\<close> goes up by one (nothing else changes) whenever, among the accepted
  segments scanned from the last one backward while their start is at least
  \<open>gs - max(OVERLAP_SEC, 2.0)\<close>, one has similarity at least 0.85 to the candidate's
  text. In particular, for the windows (0, 0, 600) and (1, 599, 1200), chunk 0 holding
  \<^verbatim>\<open>{start=598.5, end=599.8, text="hello world"}\<close> and chunk 1 holding
  \<^verbatim>\<open>{start=0.1, end=1.3, text="hello world"}\<close>, with the default tunables and any
  similarity function that gives at least 0.85 to two equal texts "hello world", the
  merge returns exactly one segment and \<open>dropped_overlap = 1\<close>.
\<close>

theorem C3_text_dedup:
  "(\<not> (r_end s + c_start < c_start + EPS \<or> r_start s + c_start > c_end - EPS) \<longrightarrow>
    (\<exists>m \<in> set (takeWhile
          (\<lambda>m. max (r_start s + c_start) c_start - max (OVERLAP_SEC C) 2 \<le> seg_start m)
          (rev (merged st))).
        85 / 100 \<le> similar E (seg_text m) (r_text s)) \<longrightarrow>
    merge_step C E c_start c_end st s
      = st\<lparr>meta := (meta st)\<lparr>dropped_overlap := dropped_overlap (meta st) + 1\<rparr>\<rparr>)
   \<and> (85 / 100 \<le> sim ''hello world'' ''hello world'' \<longrightarrow>
        merge_segments default_config (boundary_env sim) boundary_manifest ''results'' ''job''
          = Inr ([\<lparr>seg_id = 0, seg_start = 598.5, seg_end = 599.8, seg_text = ''hello world''\<rparr>],
                 \<lparr>chunks = 2, dropped_short = 0, dropped_overlap = 1\<rparr>))"
proof (intro conjI impI)
  assume keep: "\<not> (r_end s + c_start < c_start + EPS \<or> r_start s + c_start > c_end - EPS)"
    and dup: "\<exists>m \<in> set (takeWhile
          (\<lambda>m. max (r_start s + c_start) c_start - max (OVERLAP_SEC C) 2 \<le> seg_start m)
          (rev (merged st))).
        85 / 100 \<le> similar E (seg_text m) (r_text s)"
  from dup have "dup_scan E (max (r_start s + c_start) c_start - DEDUP_BACK_WINDOW C) (r_text s)
      (rev (merged st))"
    by (simp add: dup_scan_iff DEDUP_BACK_WINDOW_def DEDUP_SIM_THRESH_def)
  with keep show "merge_step C E c_start c_end st s
      = st\<lparr>meta := (meta st)\<lparr>dropped_overlap := dropped_overlap (meta st) + 1\<rparr>\<rparr>"
    by (simp add: merge_step_def Let_def bump_overlap_def)
next
  assume "85 / 100 \<le> sim ''hello world'' ''hello world''"
  then show "merge_segments default_config (boundary_env sim) boundary_manifest ''results'' ''job''
          = Inr ([\<lparr>seg_id = 0, seg_start = 598.5, seg_end = 599.8, seg_text = ''hello world''\<rparr>],
                 \<lparr>chunks = 2, dropped_short = 0, dropped_overlap = 1\<rparr>)"
    by (rule boundary_merge_any_sim)
qed

text \<open>
  The theorem at the second chunk of the sample: the state after chunk 0, the first
  segment of chunk 1 in the window 599..1200, and the similarity that is 1 on equal texts.
\<close>

theorem C3_text_dedup_witness:
  "\<not> (r_end boundary_candidate + 599 < 599 + EPS \<or> r_start boundary_candidate + 599 > 1200 - EPS)
   \<and> (\<exists>m \<in> set (takeWhile
          (\<lambda>m. max (r_start boundary_candidate + 599) 599 - max (OVERLAP_SEC default_config) 2
                 \<le> seg_start m)
          (rev (merged boundary_state))).
        85 / 100 \<le> similar (boundary_env same_text) (seg_text m) (r_text boundary_candidate))
   \<and> merge_step default_config (boundary_env same_text) 599 1200 boundary_state boundary_candidate
      = boundary_state\<lparr>meta := (meta boundary_state)\<lparr>dropped_overlap :=
          dropped_overlap (meta boundary_state) + 1\<rparr>\<rparr>
   \<and> 85 / 100 \<le> same_text ''hello world'' ''hello world''
   \<and> merge_segments default_config (boundary_env same_text) boundary_manifest ''results'' ''job''
          = Inr ([\<lparr>seg_id = 0, seg_start = 598.5, seg_end = 599.8, seg_text = ''hello world''\<rparr>],
                 \<lparr>chunks = 2, dropped_short = 0, dropped_overlap = 1\<rparr>)"
proof -
  have h1: "\<not> (r_end boundary_candidate + 599 < 599 + EPS
      \<or> r_start boundary_candidate + 599 > 1200 - EPS)"
    by (simp add: boundary_candidate_def EPS_def)
  have h2: "\<exists>m \<in> set (takeWhile
          (\<lambda>m. max (r_start boundary_candidate + 599) 599 - max (OVERLAP_SEC default_config) 2
                 \<le> seg_start m)
          (rev (merged boundary_state))).
        85 / 100 \<le> similar (boundary_env same_text) (seg_text m) (r_text boundary_candidate)"
    by (simp add: boundary_candidate_def boundary_state_def default_config_def boundary_similar
        same_text_def)
  have h3: "85 / 100 \<le> same_text ''hello world'' ''hello world''"
    by (simp add: same_text_def)
  from C3_text_dedup [of boundary_candidate 599 1200 default_config boundary_state
      "boundary_env same_text" same_text] h1 h2 h3
  show ?thesis by blast
qed

text \<open>
  Claim C9: a candidate that the clamping step discards (its global end is below the
  window start plus epsilon, or its global start above the window end minus epsilon)
  leaves the merge state as it was: no counter moves, nothing is appended, and the last
  accepted end stays.
\<close>

theorem C9_clamp_discard_frame:
  assumes "r_end s + c_start < c_start + EPS \<or> r_start s + c_start > c_end - EPS"
  shows "merge_step C E c_start c_end st s = st"
  using assms by (simp add: merge_step_def)

theorem C9_clamp_discard_frame_witness:
  "(r_end \<lparr>r_start = 601, r_end = 602, r_text = ''late''\<rparr> + 0 < 0 + EPS
      \<or> r_start \<lparr>r_start = 601, r_end = 602, r_text = ''late''\<rparr> + 0 > 600 - EPS)
   \<and> merge_step default_config gap_env 0 600 boundary_state
        \<lparr>r_start = 601, r_end = 602, r_text = ''late''\<rparr> = boundary_state"
proof -
  have h: "r_end \<lparr>r_start = 601, r_end = 602, r_text = ''late''\<rparr> + 0 < 0 + EPS
      \<or> r_start \<lparr>r_start = 601, r_end = 602, r_text = ''late''\<rparr> + 0 > 600 - EPS"
    by (simp add: EPS_def)
  show ?thesis
    using h C9_clamp_discard_frame [OF h, of default_config gap_env boundary_state] by simp
qed

section \<open>Properties of manifest parsing\<close>

lemma parse_lines_ok:
  assumes "\<forall>l \<in> set ls. py_strip l \<noteq> [] \<longrightarrow>
             (\<exists>obj. json_loads E (py_strip l) = Inr obj \<and> parse_entry E obj = Inr (rcd l))"
  shows "parse_lines E ls = Inr (map rcd (filter (\<lambda>l. py_strip l \<noteq> []) ls))"
  using assms by (induction ls) (auto simp: Let_def)

lemma parse_lines_all_ok:
  "parse_lines E ls = Inr es \<Longrightarrow> l \<in> set ls \<Longrightarrow> py_strip l \<noteq> [] \<Longrightarrow>
   \<exists>obj en. json_loads E (py_strip l) = Inr obj \<and> parse_entry E obj = Inr en"
  by (induction ls arbitrary: es) (auto simp: Let_def split: if_splits sum.splits)

lemma parse_entry_numbers:
  assumes "map_of kvs ''index'' = Some (JInt i)"
    and "map_of kvs ''start_sec'' = Some (JFloat a)"
    and "map_of kvs ''end_sec'' = Some (JFloat b)"
  shows "parse_entry E (JObj kvs) = Inr \<lparr>index = i, start_sec = a, end_sec = b\<rparr>"
  using assms by (simp add: parse_entry_def bind_res_def)

lemma parse_entry_missing:
  assumes "map_of kvs ''index'' = None \<or> map_of kvs ''start_sec'' = None
      \<or> map_of kvs ''end_sec'' = None"
  shows "\<exists>err. parse_entry E (JObj kvs) = Inl err"
  using assms by (auto simp: parse_entry_def bind_res_def split: sum.splits option.splits)

lemma parse_entry_missing_index:
  "map_of kvs ''index'' = None \<Longrightarrow> parse_entry E (JObj kvs) = Inl (KeyError ''index'')"
  by (simp add: parse_entry_def bind_res_def)

lemma parse_entry_missing_start:
  "map_of kvs ''index'' = Some (JInt i) \<Longrightarrow> map_of kvs ''start_sec'' = None \<Longrightarrow>
   parse_entry E (JObj kvs) = Inl (KeyError ''start_sec'')"
  by (simp add: parse_entry_def bind_res_def)

lemma parse_entry_missing_end:
  "map_of kvs ''index'' = Some (JInt i) \<Longrightarrow> map_of kvs ''start_sec'' = Some (JFloat a) \<Longrightarrow>
   map_of kvs ''end_sec'' = None \<Longrightarrow>
   parse_entry E (JObj kvs) = Inl (KeyError ''end_sec'')"
  by (simp add: parse_entry_def bind_res_def)

lemma parse_entry_not_object:
  "\<forall>kvs. obj \<noteq> JObj kvs \<Longrightarrow> parse_entry E obj = Inl TypeError"
  by (cases obj) (simp_all add: parse_entry_def bind_res_def)

lemma parse_entry_index_shape:
  "map_of kvs ''index'' = Some v \<Longrightarrow> v = JNull \<or> (\<exists>xs. v = JArr xs) \<or> (\<exists>m. v = JObj m) \<Longrightarrow>
   parse_entry E (JObj kvs) = Inl TypeError"
  by (auto simp: parse_entry_def bind_res_def)

lemma manifest_parse:
  "parse_manifest_jsonl manifest_env manifest_text
   = Inr [\<lparr>index = 0, start_sec = 0, end_sec = 600\<rparr>,
          \<lparr>index = 1, start_sec = 599, end_sec = 1200\<rparr>,
          \<lparr>index = 1, start_sec = 10, end_sec = 20\<rparr>]"
  by code_simp

lemma manifest_splitlines:
  "splitlines manifest_text = [line_a, [], line_b, ''  '' @ line_c]"
  by code_simp

text \<open>
  Claim C4, as the code has it. Manifest parsing checks neither the sign of the index nor
  the order of start and end, and knows no \<^verbatim>\<open>MalformedWindowError\<close>: a record that is
  an object with an integer under \<^verbatim>\<open>"index"\<close> and floats under \<^verbatim>\<open>"start_sec"\<close> and
  \<^verbatim>\<open>"end_sec"\<close> is accepted with exactly these values, whatever they are. A record with
  one of the three fields missing is never accepted: the parse fails, with the
  \<^verbatim>\<open>KeyError\<close> of the first missing field when the fields before it are well-formed. A
  record that is not an object, or whose index is null, an array or an object, fails
  with \<^verbatim>\<open>TypeError\<close>. When the parse of a manifest returns, every non-blank line decoded
  to a record that was accepted.
\<close>

theorem C4_no_range_validation:
  "(map_of kvs1 ''index'' = Some (JInt i) \<longrightarrow> map_of kvs1 ''start_sec'' = Some (JFloat a) \<longrightarrow>
      map_of kvs1 ''end_sec'' = Some (JFloat b) \<longrightarrow>
      parse_entry E (JObj kvs1) = Inr \<lparr>index = i, start_sec = a, end_sec = b\<rparr>)
   \<and> (map_of kvs2 ''index'' = None \<or> map_of kvs2 ''start_sec'' = None
        \<or> map_of kvs2 ''end_sec'' = None \<longrightarrow>
      (\<exists>err. parse_entry E (JObj kvs2) = Inl err))
   \<and> (map_of kvs3 ''index'' = None \<longrightarrow> parse_entry E (JObj kvs3) = Inl (KeyError ''index''))
   \<and> (map_of kvs4 ''index'' = Some (JInt i4) \<longrightarrow> map_of kvs4 ''start_sec'' = None \<longrightarrow>
      parse_entry E (JObj kvs4) = Inl (KeyError ''start_sec''))
   \<and> (map_of kvs5 ''index'' = Some (JInt i5) \<longrightarrow> map_of kvs5 ''start_sec'' = Some (JFloat a5) \<longrightarrow>
      map_of kvs5 ''end_sec'' = None \<longrightarrow>
      parse_entry E (JObj kvs5) = Inl (KeyError ''end_sec''))
   \<and> ((\<forall>kvs. obj \<noteq> JObj kvs) \<longrightarrow> parse_entry E obj = Inl TypeError)
   \<and> (map_of kvs6 ''index'' = Some v \<longrightarrow> v = JNull \<or> (\<exists>xs. v = JArr xs) \<or> (\<exists>m. v = JObj m) \<longrightarrow>
      parse_entry E (JObj kvs6) = Inl TypeError)
   \<and> (parse_manifest_jsonl E text = Inr ws \<longrightarrow>
      (\<forall>l \<in> set (splitlines text). py_strip l \<noteq> [] \<longrightarrow>
         (\<exists>obj en. json_loads E (py_strip l) = Inr obj \<and> parse_entry E obj = Inr en)))"
proof (intro conjI impI ballI)
  assume "parse_manifest_jsonl E text = Inr ws"
  then obtain es where es: "parse_lines E (splitlines text) = Inr es"
    by (auto simp: parse_manifest_jsonl_def split: sum.splits)
  fix l
  assume "l \<in> set (splitlines text)" and "py_strip l \<noteq> []"
  with es show "\<exists>obj en. json_loads E (py_strip l) = Inr obj \<and> parse_entry E obj = Inr en"
    by (rule parse_lines_all_ok)
qed (simp_all add: parse_entry_numbers parse_entry_missing parse_entry_missing_index
    parse_entry_missing_start parse_entry_missing_end parse_entry_not_object
    parse_entry_index_shape)

text \<open>
  The theorem at sample records: a record with the index -1 and its end before its
  start, records with missing fields, a record that is an array, a record whose index is
  null, and the last line of the sample manifest.
\<close>

theorem C4_no_range_validation_witness:
  "parse_entry manifest_env (JObj [(''index'', JInt (- 1)), (''start_sec'', JFloat 5),
       (''end_sec'', JFloat 3)]) = Inr \<lparr>index = - 1, start_sec = 5, end_sec = 3\<rparr>
   \<and> (\<exists>err. parse_entry manifest_env (JObj [(''index'', JInt 0), (''start_sec'', JFloat 0)])
        = Inl err)
   \<and> parse_entry manifest_env (JObj [(''start_sec'', JFloat 0), (''end_sec'', JFloat 1)])
        = Inl (KeyError ''index'')
   \<and> parse_entry manifest_env (JObj [(''index'', JInt 0), (''end_sec'', JFloat 1)])
        = Inl (KeyError ''start_sec'')
   \<and> parse_entry manifest_env (JObj [(''index'', JInt 0), (''start_sec'', JFloat 0)])
        = Inl (KeyError ''end_sec'')
   \<and> parse_entry manifest_env (JArr [JInt 0, JFloat 0, JFloat 1]) = Inl TypeError
   \<and> parse_entry manifest_env (JObj [(''index'', JNull), (''start_sec'', JFloat 0),
       (''end_sec'', JFloat 1)]) = Inl TypeError
   \<and> (\<exists>obj en. json_loads manifest_env (py_strip (''  '' @ line_c)) = Inr obj
        \<and> parse_entry manifest_env obj = Inr en)"
proof -
  have l: "''  '' @ line_c \<in> set (splitlines manifest_text)"
    by (simp add: manifest_splitlines)
  have ne: "py_strip (''  '' @ line_c) \<noteq> []"
    by code_simp
  have arr: "\<forall>kvs. JArr [JInt 0, JFloat 0, JFloat 1] \<noteq> JObj kvs"
    by simp
  from C4_no_range_validation [of
      "[(''index'', JInt (- 1)), (''start_sec'', JFloat 5), (''end_sec'', JFloat 3)]" "- 1" 5 3
      manifest_env
      "[(''index'', JInt 0), (''start_sec'', JFloat 0)]"
      "[(''start_sec'', JFloat 0), (''end_sec'', JFloat 1)]"
      "[(''index'', JInt 0), (''end_sec'', JFloat 1)]" 0
      "[(''index'', JInt 0), (''start_sec'', JFloat 0)]" 0 0
      "JArr [JInt 0, JFloat 0, JFloat 1]"
      "[(''index'', JNull), (''start_sec'', JFloat 0), (''end_sec'', JFloat 1)]" JNull
      manifest_text]
    manifest_parse l ne arr
  show ?thesis by simp
qed

text \<open>
  Claim C4 as the specification words it does not hold: a manifest whose only record has
  the index -1 and the end 3.0 before the start 5.0 is parsed without any error, and the
  record is returned.
\<close>

theorem C4_negative_index_counterexample:
  "parse_manifest_jsonl manifest_env line_neg = Inr [\<lparr>index = - 1, start_sec = 5, end_sec = 3\<rparr>]"
  by code_simp

text \<open>
  Claim C8: when every non-blank line of the manifest decodes to a record that is
  accepted (\<open>rcd l\<close> for the line \<open>l\<close>), parsing returns these records sorted ascending by
  index; all of them are kept, duplicates of an index included (the result has the same
  elements with the same multiplicities), and the records of each index are in the order
  of their lines.
\<close>

theorem C8_sorted_stable:
  assumes "\<forall>l \<in> set (splitlines text). py_strip l \<noteq> [] \<longrightarrow>
             (\<exists>obj. json_loads E (py_strip l) = Inr obj \<and> parse_entry E obj = Inr (rcd l))"
  shows "\<exists>ws. parse_manifest_jsonl E text = Inr ws
          \<and> sorted (map index ws)
          \<and> mset ws = mset (map rcd (filter (\<lambda>l. py_strip l \<noteq> []) (splitlines text)))
          \<and> (\<forall>k. filter (\<lambda>w. index w = k) ws
                 = filter (\<lambda>w. index w = k)
                     (map rcd (filter (\<lambda>l. py_strip l \<noteq> []) (splitlines text))))"
  using parse_lines_ok [OF assms]
  by (simp add: parse_manifest_jsonl_def sort_key_stable)

lemma bind_res_Inr: "bind_res m f = Inr y \<Longrightarrow> \<exists>x. m = Inr x \<and> f x = Inr y"
  by (cases m) (simp_all add: bind_res_def)

lemma manifest_lines_decode:
  "bind_res (json_loads manifest_env (py_strip line_a)) (parse_entry manifest_env)
     = Inr (manifest_record line_a)"
  "bind_res (json_loads manifest_env (py_strip line_b)) (parse_entry manifest_env)
     = Inr (manifest_record line_b)"
  "bind_res (json_loads manifest_env (py_strip (''  '' @ line_c))) (parse_entry manifest_env)
     = Inr (manifest_record (''  '' @ line_c))"
  by code_simp+

text \<open>
  The theorem at the sample manifest: the lines carry the indices 1, 0, 1, and the two
  records of index 1 come out in the order of their lines.
\<close>

theorem C8_sorted_stable_witness:
  "\<exists>ws. parse_manifest_jsonl manifest_env manifest_text = Inr ws
      \<and> sorted (map index ws)
      \<and> mset ws = mset (map manifest_record
                          (filter (\<lambda>l. py_strip l \<noteq> []) (splitlines manifest_text)))
      \<and> (\<forall>k. filter (\<lambda>w. index w = k) ws
             = filter (\<lambda>w. index w = k)
                 (map manifest_record
                    (filter (\<lambda>l. py_strip l \<noteq> []) (splitlines manifest_text))))"
proof -
  have "\<forall>l \<in> set (splitlines manifest_text). py_strip l \<noteq> [] \<longrightarrow>
      (\<exists>obj. json_loads manifest_env (py_strip l) = Inr obj
         \<and> parse_entry manifest_env obj = Inr (manifest_record l))"
    using manifest_lines_decode [THEN bind_res_Inr]
    by (simp add: manifest_splitlines py_strip_def)
  then show ?thesis by (rule C8_sorted_stable)
qed

section \<open>The chunk segment loader\<close>

lemma py_strip_Nil: "py_strip [] = []"
  by (simp add: py_strip_def)

lemma norm_segment_raw:
  assumes "raw_of j r"
  shows "norm_segment E j = Inr (if kept r then Some (trimmed r) else None)"
proof -
  from assms obtain kvs where j: "j = JObj kvs"
    and st: "field_num kvs ''start'' = Some (r_start r)"
    and en: "field_num kvs ''end'' = Some (r_end r)"
    and tx: "field_text kvs = Some (r_text r)"
    by (auto simp: raw_of_def split: json.splits)
  from st obtain v1 where a: "py_dict_get j ''start'' (JFloat 0) = Inr v1"
      "py_float E v1 = Inr (r_start r)"
    by (auto simp: j field_num_def split: option.splits json.splits)
  from en obtain v2 where b: "py_dict_get j ''end'' (JFloat 0) = Inr v2"
      "py_float E v2 = Inr (r_end r)"
    by (auto simp: j field_num_def split: option.splits json.splits)
  from tx obtain t where c: "py_dict_get j ''text'' JNull = Inr t"
      "py_strip_value (if py_truthy t then t else JStr []) = Inr (py_strip (r_text r))"
    by (auto simp: j field_text_def py_strip_Nil split: option.splits json.splits)
  show ?thesis
    by (simp add: norm_segment_def bind_res_def a b c kept_def trimmed_def)
qed

lemma norm_loop_raw:
  "list_all2 raw_of js rs \<Longrightarrow> norm_loop E js = Inr (map trimmed (filter kept rs))"
  by (induction js rs rule: list_all2_induct) (simp_all add: norm_segment_raw)

text \<open>
  Claim C7: for a chunk result whose \<^verbatim>\<open>"segments"\<close> is the list \<open>js\<close> of raw segment
  objects, read as the raw segments \<open>rs\<close>, the loader returns, in order, exactly the
  segments of \<open>rs\<close> whose trimmed text is not empty and whose \<open>end - start\<close> is above
  \<open>1e-6\<close>, each with its start, its end and its trimmed text; the others are discarded.
\<close>

theorem C7_loader_filter:
  assumes "read_s3_json E results_bucket chunk_key = Inr (JObj doc)"
    and "map_of doc ''segments'' = Some (JArr js)"
    and "list_all2 raw_of js rs"
  shows "load_chunk_segments E results_bucket chunk_key
         = Inr (map (\<lambda>r. \<lparr>r_start = r_start r, r_end = r_end r, r_text = py_strip (r_text r)\<rparr>)
                  (filter (\<lambda>r. \<not> (py_strip (r_text r) = [] \<or> r_end r - r_start r \<le> EPS)) rs))"
proof -
  have t: "trimmed = (\<lambda>r. \<lparr>r_start = r_start r, r_end = r_end r, r_text = py_strip (r_text r)\<rparr>)"
    by (rule ext) (simp add: trimmed_def)
  have k: "kept = (\<lambda>r. \<not> (py_strip (r_text r) = [] \<or> r_end r - r_start r \<le> EPS))"
    by (rule ext) (simp add: kept_def)
  from assms have "load_chunk_segments E results_bucket chunk_key
      = Inr (map trimmed (filter kept rs))"
    by (simp add: load_chunk_segments_def bind_res_def norm_loop_raw)
  then show ?thesis by (simp only: t k)
qed

lemma gap_read0:
  "read_s3_json gap_env ''results'' ''chunks/job/00000/out.json''
   = Inr (JObj [(''segments'', JArr gap_segments0)])"
  by code_simp

lemma gap_raw_view: "list_all2 raw_of gap_segments0 gap_raw0"
  by (simp add: gap_segments0_def gap_raw0_def raw_of_def field_num_def field_text_def)

lemma gap_kept:
  "map (\<lambda>r. \<lparr>r_start = r_start r, r_end = r_end r, r_text = py_strip (r_text r)\<rparr>)
     (filter (\<lambda>r. \<not> (py_strip (r_text r) = [] \<or> r_end r - r_start r \<le> EPS)) gap_raw0)
   = [\<lparr>r_start = 0, r_end = 2.5, r_text = ''first words''\<rparr>,
      \<lparr>r_start = 598.5, r_end = 599.8, r_text = ''hello world''\<rparr>]"
  by code_simp

text \<open>
  The theorem at chunk 0 of the sample with a gap: of its four raw segments, the one of
  no duration and the one of blank text are discarded, and the first is trimmed.
\<close>

theorem C7_loader_filter_witness:
  "read_s3_json gap_env ''results'' ''chunks/job/00000/out.json''
     = Inr (JObj [(''segments'', JArr gap_segments0)])
   \<and> map_of [(''segments'', JArr gap_segments0)] ''segments'' = Some (JArr gap_segments0)
   \<and> list_all2 raw_of gap_segments0 gap_raw0
   \<and> load_chunk_segments gap_env ''results'' ''chunks/job/00000/out.json''
     = Inr [\<lparr>r_start = 0, r_end = 2.5, r_text = ''first words''\<rparr>,
            \<lparr>r_start = 598.5, r_end = 599.8, r_text = ''hello world''\<rparr>]"
proof -
  have m: "map_of [(''segments'', JArr gap_segments0)] ''segments'' = Some (JArr gap_segments0)"
    by simp
  from C7_loader_filter [OF gap_read0 m gap_raw_view] gap_read0 m gap_raw_view
  show ?thesis by (simp only: gap_kept simp_thms)
qed

section \<open>Missing and empty chunk results\<close>

lemma merge_loop_skip:
  assumes "guess_chunk_key E b job (index w) = Inr None"
  shows "merge_loop C E b job st (ws1 @ w # ws2) = merge_loop C E b job st (ws1 @ ws2)"
  using assms by (induction ws1 arbitrary: st) (simp_all split: sum.splits option.splits)

lemma merge_step_chunks: "chunks (meta (merge_step C E cs ce st s)) = chunks (meta st)"
  by (simp add: merge_step_def Let_def bump_overlap_def bump_short_def)

lemma foldl_merge_step_chunks:
  "chunks (meta (foldl (merge_step C E cs ce) st segs)) = chunks (meta st)"
  by (induction segs arbitrary: st) (simp_all add: merge_step_chunks)

lemma merge_loop_chunks:
  "merge_loop C E b job st ens = Inr st' \<Longrightarrow>
   chunks (meta st') = chunks (meta st) + length (filter (chunk_found E b job) ens)"
proof (induction ens arbitrary: st)
  case Nil
  then show ?case by simp
next
  case (Cons en ens)
  then show ?case
    by (auto simp: chunk_found_def bump_chunks_def foldl_merge_step_chunks
        split: sum.splits option.splits if_splits)
qed

lemma merge_loop_total:
  "list_all (chunk_loadable E b job) ens \<Longrightarrow> \<exists>st'. merge_loop C E b job st ens = Inr st'"
  by (induction ens arbitrary: st)
     (auto simp: chunk_loadable_def split: sum.splits option.splits)

lemma merge_loop_no_segments:
  "list_all (no_segments E b job) ens \<Longrightarrow> merged st = [] \<Longrightarrow>
   \<exists>st'. merge_loop C E b job st ens = Inr st' \<and> merged st' = []"
  by (induction ens arbitrary: st)
     (auto simp: no_segments_def bump_chunks_def split: sum.splits option.splits)

text \<open>
  Claim C6: a window whose chunk result cannot be found is skipped. The merge of a
  manifest with such a window \<open>w\<close> is the merge of the manifest without it, error or
  result alike, so the output segments and counters come from the other windows only,
  each offset by its own window; when the merge returns, its \<open>chunks\<close> counter is the
  number of windows whose chunk result was found; and the merge returns whenever every
  window's lookup does not raise and every chunk result found loads without an error,
  however many windows have none.
\<close>

theorem C6_missing_chunk_skipped:
  "(guess_chunk_key E results_bucket job (index w) = Inr None \<longrightarrow>
      merge_segments C E (ws1 @ w # ws2) results_bucket job
        = merge_segments C E (ws1 @ ws2) results_bucket job)
   \<and> (merge_segments C E manifest results_bucket job = Inr (segs, mt) \<longrightarrow>
        chunks mt = length (filter (chunk_found E results_bucket job) manifest))
   \<and> (list_all (chunk_loadable E results_bucket job) manifest \<longrightarrow>
        (\<exists>segs mt. merge_segments C E manifest results_bucket job = Inr (segs, mt)))"
proof (intro conjI impI)
  assume "guess_chunk_key E results_bucket job (index w) = Inr None"
  then show "merge_segments C E (ws1 @ w # ws2) results_bucket job
        = merge_segments C E (ws1 @ ws2) results_bucket job"
    by (simp add: merge_segments_def merge_loop_skip)
next
  assume "merge_segments C E manifest results_bucket job = Inr (segs, mt)"
  then obtain st where "merge_loop C E results_bucket job initial_state manifest = Inr st"
    and "mt = meta st"
    by (auto simp: merge_segments_def split: sum.splits)
  then show "chunks mt = length (filter (chunk_found E results_bucket job) manifest)"
    using merge_loop_chunks [of C E results_bucket job initial_state manifest st]
    by (simp add: initial_state_def)
next
  assume "list_all (chunk_loadable E results_bucket job) manifest"
  then obtain st where "merge_loop C E results_bucket job initial_state manifest = Inr st"
    using merge_loop_total by blast
  then show "\<exists>segs mt. merge_segments C E manifest results_bucket job = Inr (segs, mt)"
    by (simp add: merge_segments_def)
qed

lemma gap_guess1: "guess_chunk_key gap_env ''results'' ''job'' (index gap_window1) = Inr None"
  by code_simp

lemma gap_loadable: "list_all (chunk_loadable gap_env ''results'' ''job'') gap_manifest"
  by code_simp

lemma gap_found:
  "length (filter (chunk_found gap_env ''results'' ''job'') gap_manifest) = 2"
  by code_simp

text \<open>
  The theorem at the sample with a gap: chunk 1 is not found, the merge returns the
  segments of chunks 0 and 2 and counts two chunks.
\<close>

theorem C6_missing_chunk_skipped_witness:
  "guess_chunk_key gap_env ''results'' ''job'' (index gap_window1) = Inr None
   \<and> merge_segments default_config gap_env ([gap_window0] @ gap_window1 # [gap_window2])
        ''results'' ''job''
     = merge_segments default_config gap_env ([gap_window0] @ [gap_window2]) ''results'' ''job''
   \<and> merge_segments default_config gap_env gap_manifest ''results'' ''job''
     = Inr (gap_output, \<lparr>chunks = 2, dropped_short = 0, dropped_overlap = 0\<rparr>)
   \<and> chunks \<lparr>chunks = 2, dropped_short = 0, dropped_overlap = 0\<rparr>
     = length (filter (chunk_found gap_env ''results'' ''job'') gap_manifest)
   \<and> list_all (chunk_loadable gap_env ''results'' ''job'') gap_manifest
   \<and> (\<exists>segs mt. merge_segments default_config gap_env gap_manifest ''results'' ''job''
         = Inr (segs, mt))"
  using C6_missing_chunk_skipped [of gap_env "''results''" "''job''" gap_window1
      default_config "[gap_window0]" "[gap_window2]" gap_manifest gap_output
      "\<lparr>chunks = 2, dropped_short = 0, dropped_overlap = 0\<rparr>"]
    gap_guess1 gap_merge gap_loadable
  by blast

text \<open>
  Claim C5, as the code has it: for zero windows, and for windows whose chunk results
  are absent or load to no segment, the merge returns the empty sequence; for the empty
  sequence the plain text is the empty string, the WebVTT output is \<^verbatim>\<open>"WEBVTT\n"\<close> (the
  header line and one newline), the SubRip output is the empty string and
  \<open>duration_sec\<close> is 0.0; for a non-empty sequence \<open>duration_sec\<close> is the end of the last
  segment.
\<close>

theorem C5_empty_input:
  "merge_segments C E [] results_bucket job
     = Inr ([], \<lparr>chunks = 0, dropped_short = 0, dropped_overlap = 0\<rparr>)
   \<and> (list_all (no_segments E results_bucket job) manifest \<longrightarrow>
        (\<exists>mt. merge_segments C E manifest results_bucket job = Inr ([], mt)))
   \<and> to_txt [] = []
   \<and> to_vtt [] = ''WEBVTT\<newline>''
   \<and> to_srt [] = []
   \<and> duration_sec (to_transcript_json job lang []) = 0
   \<and> (segs \<noteq> [] \<longrightarrow> duration_sec (to_transcript_json job lang segs) = seg_end (last segs))"
proof (intro conjI impI)
  assume "list_all (no_segments E results_bucket job) manifest"
  then obtain st where "merge_loop C E results_bucket job initial_state manifest = Inr st"
    and "merged st = []"
    using merge_loop_no_segments [of E results_bucket job manifest initial_state C]
    by (auto simp: initial_state_def)
  then show "\<exists>mt. merge_segments C E manifest results_bucket job = Inr ([], mt)"
    by (simp add: merge_segments_def)
qed (simp_all add: merge_segments_def initial_state_def to_txt_def to_vtt_def to_srt_def
    to_transcript_json_def enumerate_eq_zip)

lemma blank_no_segments: "list_all (no_segments blank_env ''results'' ''job'') boundary_manifest"
  by code_simp

lemma gap_output_duration:
  "gap_output \<noteq> [] \<and> seg_end (last gap_output) = 1202.25"
  by (simp add: gap_output_def)

text \<open>
  The theorem at the sample where chunk 0 is absent and chunk 1 holds only blank text,
  and, for the duration, at the output of the sample with a gap.
\<close>

theorem C5_empty_input_witness:
  "list_all (no_segments blank_env ''results'' ''job'') boundary_manifest
   \<and> (\<exists>mt. merge_segments default_config blank_env boundary_manifest ''results'' ''job''
         = Inr ([], mt))
   \<and> to_vtt [] = ''WEBVTT\<newline>''
   \<and> gap_output \<noteq> []
   \<and> duration_sec (to_transcript_json ''job'' None gap_output) = 1202.25"
  using C5_empty_input [of default_config blank_env "''results''" "''job''" boundary_manifest
      None gap_output]
    blank_no_segments gap_output_duration
  by simp

text \<open>
  Claim C5 as the specification words it does not hold: the WebVTT output for the empty
  sequence is not the header followed by two newlines.
\<close>

theorem C5_empty_vtt_counterexample:
  "to_vtt [] \<noteq> ''WEBVTT\<newline>\<newline>''"
  by code_simp

section \<open>The texts of the output\<close>

lemma norm_segment_text:
  assumes "norm_segment E j = Inr (Some r)"
  shows "\<exists>t. py_dict_get j ''text'' JNull = Inr (JStr t) \<and> r_text r = py_strip t \<and> py_strip t \<noteq> []"
proof -
  from assms obtain v where v: "py_dict_get j ''text'' JNull = Inr v"
    and s: "py_strip_value (if py_truthy v then v else JStr []) = Inr (r_text r)"
    and ne: "r_text r \<noteq> []"
    by (auto simp: norm_segment_def bind_res_def split: sum.splits if_splits)
  show ?thesis
  proof (cases "py_truthy v")
    case True
    with s obtain t where "v = JStr t" "r_text r = py_strip t" by (cases v) auto
    with v ne show ?thesis by auto
  next
    case False
    with s ne show ?thesis by (simp add: py_strip_def)
  qed
qed

lemma norm_loop_text:
  "norm_loop E js = Inr rs \<Longrightarrow> r \<in> set rs \<Longrightarrow>
   \<exists>j \<in> set js. \<exists>t. py_dict_get j ''text'' JNull = Inr (JStr t) \<and> r_text r = py_strip t
      \<and> py_strip t \<noteq> []"
proof (induction js arbitrary: rs)
  case Nil
  then show ?case by simp
next
  case (Cons j js)
  then show ?case
    by (auto split: sum.splits option.splits dest: norm_segment_text)
qed

lemma load_chunk_text:
  assumes "load_chunk_segments E b k = Inr rs" and "r \<in> set rs"
  shows "chunk_text E b k (r_text r) \<and> r_text r \<noteq> []"
proof -
  from assms(1) obtain data segs js where
    d: "read_s3_json E b k = Inr data" "py_dict_get data ''segments'' (JArr []) = Inr segs"
       "py_iter segs = Inr js" "norm_loop E js = Inr rs"
    by (auto simp: load_chunk_segments_def bind_res_def split: sum.splits)
  from norm_loop_text [OF d(4) assms(2)] d(1-3) show ?thesis
    by (auto simp: chunk_text_def)
qed

lemma merge_step_texts:
  "g \<in> set (merged (merge_step C E cs ce st s)) \<Longrightarrow>
   g \<in> set (merged st) \<or> seg_text g = r_text s"
  by (auto simp: merge_step_def Let_def bump_overlap_def bump_short_def split: if_splits)

lemma foldl_merge_step_texts:
  "g \<in> set (merged (foldl (merge_step C E cs ce) st segs)) \<Longrightarrow>
   g \<in> set (merged st) \<or> (\<exists>r \<in> set segs. seg_text g = r_text r)"
proof (induction segs arbitrary: st)
  case Nil
  then show ?case by simp
next
  case (Cons s segs)
  from Cons.IH [OF Cons.prems [simplified]] show ?case
    by (auto dest: merge_step_texts)
qed

lemma input_text_Cons: "input_text E b job ens txt \<Longrightarrow> input_text E b job (en # ens) txt"
  by (auto simp: input_text_def)

lemma merge_loop_texts:
  "merge_loop C E b job st ens = Inr st' \<Longrightarrow> g \<in> set (merged st') \<Longrightarrow>
   g \<in> set (merged st) \<or> (seg_text g \<noteq> [] \<and> input_text E b job ens (seg_text g))"
proof (induction ens arbitrary: st)
  case Nil
  then show ?case by simp
next
  case (Cons en ens)
  show ?case
  proof (cases "chunk_found E b job en")
    case False
    with Cons.prems(1) have "merge_loop C E b job st ens = Inr st'"
      by (auto simp: chunk_found_def split: sum.splits option.splits if_splits)
    from Cons.IH [OF this Cons.prems(2)] show ?thesis
      by (auto intro: input_text_Cons)
  next
    case True
    then obtain k where k: "guess_chunk_key E b job (index en) = Inr (Some k)" "k \<noteq> []"
      by (auto simp: chunk_found_def split: sum.splits option.splits)
    with Cons.prems(1) obtain segs where
      l: "load_chunk_segments E b k = Inr segs"
      and m: "merge_loop C E b job
           (bump_chunks (foldl (merge_step C E (start_sec en) (end_sec en)) st segs)) ens = Inr st'"
      by (auto split: sum.splits)
    from Cons.IH [OF m Cons.prems(2)] show ?thesis
    proof
      assume "g \<in> set (merged (bump_chunks
          (foldl (merge_step C E (start_sec en) (end_sec en)) st segs)))"
      then have "g \<in> set (merged (foldl (merge_step C E (start_sec en) (end_sec en)) st segs))"
        by (simp add: bump_chunks_def)
      from foldl_merge_step_texts [OF this] show ?thesis
      proof
        assume "g \<in> set (merged st)"
        then show ?thesis by simp
      next
        assume "\<exists>r \<in> set segs. seg_text g = r_text r"
        then obtain r where "r \<in> set segs" "seg_text g = r_text r" by blast
        with load_chunk_text [OF l] k(1) show ?thesis
          by (auto simp: input_text_def)
      qed
    next
      assume "seg_text g \<noteq> [] \<and> input_text E b job ens (seg_text g)"
      then show ?thesis by (auto intro: input_text_Cons)
    qed
  qed
qed

lemma repair_texts:
  "g \<in> set (repair C fixed lst rest) \<Longrightarrow>
   seg_text g \<in> seg_text ` set fixed \<union> seg_text ` set rest"
proof (induction rest arbitrary: fixed lst)
  case Nil
  then show ?case by simp
next
  case (Cons seg rest)
  then show ?case
    by (fastforce simp: Let_def split: if_splits)
qed

lemma input_text_trimmed:
  assumes "input_text E b job ens txt" and "txt \<noteq> []"
  shows "\<not> is_space (hd txt) \<and> \<not> is_space (last txt)"
proof -
  from assms(1) obtain t where "txt = py_strip t"
    by (auto simp: input_text_def chunk_text_def)
  with assms(2) show ?thesis
    using py_strip_no_lead [of t] py_strip_no_trail [of t] by simp
qed

text \<open>
  Claim C10: every segment of the final output has a text that is not empty, neither
  starts nor ends with a whitespace character, and is the trimmed text of a segment of a
  chunk result found for a window of the manifest: the merge pass and the repair pass
  copy the text that the loader produced.
\<close>

theorem C10_output_texts:
  assumes "merge_segments C E manifest results_bucket job = Inr (fixed, mt)"
    and "g \<in> set fixed"
  shows "seg_text g \<noteq> [] \<and> \<not> is_space (hd (seg_text g)) \<and> \<not> is_space (last (seg_text g))
         \<and> input_text E results_bucket job manifest (seg_text g)"
proof -
  from assms(1) obtain st where
    loop: "merge_loop C E results_bucket job initial_state manifest = Inr st"
    and fixed: "fixed = repair C [] 0 (merged st)"
    by (auto simp: merge_segments_def split: sum.splits)
  from repair_texts [of g C "[]" 0 "merged st"] assms(2) fixed
  obtain g' where g': "g' \<in> set (merged st)" "seg_text g = seg_text g'" by auto
  from merge_loop_texts [OF loop g'(1)] g'(2)
  have t: "seg_text g \<noteq> []" "input_text E results_bucket job manifest (seg_text g)"
    by (simp_all add: initial_state_def)
  with input_text_trimmed [OF t(2) t(1)] show ?thesis by simp
qed

text \<open>
  The theorem at the first output segment of the sample with a gap, whose raw text
  \<^verbatim>\<open>" first words "\<close> the loader trimmed.
\<close>

theorem C10_output_texts_witness:
  "merge_segments default_config gap_env gap_manifest ''results'' ''job''
     = Inr (gap_output, \<lparr>chunks = 2, dropped_short = 0, dropped_overlap = 0\<rparr>)
   \<and> \<lparr>seg_id = 0, seg_start = 0, seg_end = 2.5, seg_text = ''first words''\<rparr> \<in> set gap_output
   \<and> \<not> is_space (hd ''first words'') \<and> \<not> is_space (last ''first words'')
   \<and> input_text gap_env ''results'' ''job'' gap_manifest ''first words''"
proof -
  have m: "\<lparr>seg_id = 0, seg_start = 0, seg_end = 2.5, seg_text = ''first words''\<rparr> \<in> set gap_output"
    by (simp add: gap_output_def)
  from C10_output_texts [OF gap_merge m] gap_merge m show ?thesis by simp
qed

end
